theory Spec2Isabelle
  imports Main "HOL-Library.Word"
begin

section \<open>Data model of the conversation bot (src/main.go)\<close>

text \<open>
  The three dialogue states are the untyped integer constants of the source
  (\<^verbatim>\<open>iota\<close>: 0, 1, 2). \<^verbatim>\<open>UserSession.State\<close> is a plain Go \<^verbatim>\<open>int\<close>,
  so a session can hold any integer there; the \<^verbatim>\<open>switch\<close> of
  \<^verbatim>\<open>ProcessUpdate\<close> has no default case.
\<close>

definition StateChoosing :: int where
  "StateChoosing = 0"

definition StateTypingReply :: int where
  "StateTypingReply = 1"

definition StateTypingChoice :: int where
  "StateTypingChoice = 2"

text \<open>
  A Go \<^verbatim>\<open>string\<close> is a sequence of bytes, that is a \<^typ>\<open>string\<close>.
  \<^verbatim>\<open>UserData\<close> is a Go map, modelled as a partial function; the map is
  allocated (\<^verbatim>\<open>GetOrCreateSession\<close> makes it), a nil map is not a value
  of this type.
\<close>

record UserSession =
  State :: int
  CurrentKey :: string
  UserData :: "string \<rightharpoonup> string"
  LastUpdated :: "64 word"

text \<open>
  The store maps a user id (\<^verbatim>\<open>int64\<close>) to the session it owns. The source
  holds pointers to sessions; here the handle of a session is its key, and
  the value returned by a lookup is the session stored under it. The mutex
  is not modelled: every operation below is one critical section.
\<close>

record ThreadSafeStorage =
  Sessions :: "64 word \<rightharpoonup> UserSession"
  FilePath :: string

subsection \<open>Storage logic\<close>

definition GetSession :: "ThreadSafeStorage \<Rightarrow> 64 word \<Rightarrow> UserSession option" where
  "GetSession s userID = Sessions s userID"

text \<open>
  The composite literal of \<^verbatim>\<open>GetOrCreateSession\<close>: \<^verbatim>\<open>State\<close> and
  \<^verbatim>\<open>UserData\<close> are given, the other fields take their zero values.
\<close>

definition newUserSession :: UserSession where
  "newUserSession =
     \<lparr>State = StateChoosing, CurrentKey = [], UserData = Map.empty, LastUpdated = 0\<rparr>"

definition GetOrCreateSession ::
  "ThreadSafeStorage \<Rightarrow> 64 word \<Rightarrow> ThreadSafeStorage \<times> UserSession" where
  "GetOrCreateSession s userID =
     (case Sessions s userID of
        None \<Rightarrow> (s\<lparr>Sessions := (Sessions s)(userID \<mapsto> newUserSession)\<rparr>, newUserSession)
      | Some session \<Rightarrow> (s, session))"

subsection \<open>Persistence\<close>

text \<open>
  The snapshot is a JSON document, written and read by \<^verbatim>\<open>encoding/json\<close>.
  What the document holds of a session is fixed by the struct tags of
  \<^verbatim>\<open>UserSession\<close>: the members \<^verbatim>\<open>state\<close>, \<^verbatim>\<open>user_data\<close> and
  \<^verbatim>\<open>last_updated\<close>, and the member \<^verbatim>\<open>current_key\<close>, which
  \<^verbatim>\<open>omitempty\<close> leaves out when the key is the empty string.
\<close>

record SessionObject =
  json_state :: int
  json_current_key :: "string option"
  json_user_data :: "string \<rightharpoonup> string"
  json_last_updated :: "64 word"

text \<open>
  The bytes of a file are modelled by what they are to \<^verbatim>\<open>Load\<close>: no bytes
  at all, the text of a snapshot (an object with one session object for each
  user id), or any other text. How \<^verbatim>\<open>encoding/json\<close> spells a document, and
  that it reads a document it has spelled as that document, is the library's
  part. The strings of a session are valid UTF-8: each comes out of
  \<^verbatim>\<open>encoding/json\<close> (in an update from Telegram, or in a snapshot) or out of
  \<^verbatim>\<open>strings.ToLower\<close> applied to such a text; the library writes such
  strings as they are.
\<close>

datatype FileData =
  NoData
| Snapshot "64 word \<rightharpoonup> SessionObject"
| OtherData string

text \<open>
  \<^verbatim>\<open>Save\<close> and \<^verbatim>\<open>Load\<close> reach the disk through \<^verbatim>\<open>os.WriteFile\<close> and
  \<^verbatim>\<open>os.ReadFile\<close>. The file system is a state: the contents of the files
  that exist, and the paths a write is allowed on. A write that is refused
  returns an error and leaves the files as they were; a read of a path with
  no file returns an error.
\<close>

record FileSystem =
  files :: "string \<rightharpoonup> FileData"
  writable :: "string \<Rightarrow> bool"

definition WriteFile :: "FileSystem \<Rightarrow> string \<Rightarrow> FileData \<Rightarrow> FileSystem option" where
  "WriteFile fs name data =
     (if writable fs name then Some (fs\<lparr>files := (files fs)(name \<mapsto> data)\<rparr>) else None)"

definition ReadFile :: "FileSystem \<Rightarrow> string \<Rightarrow> FileData option" where
  "ReadFile fs name = files fs name"

text \<open>
  The session object that \<^verbatim>\<open>json.MarshalIndent\<close> writes for a session, and
  the session that \<^verbatim>\<open>json.Unmarshal\<close> builds from a session object: a new
  \<^verbatim>\<open>UserSession\<close> whose fields are set from the members, \<^verbatim>\<open>CurrentKey\<close>
  keeping its zero value when the member is absent.
\<close>

definition marshalSession :: "UserSession \<Rightarrow> SessionObject" where
  "marshalSession session =
     \<lparr>json_state = State session,
      json_current_key = (if CurrentKey session = [] then None else Some (CurrentKey session)),
      json_user_data = UserData session,
      json_last_updated = LastUpdated session\<rparr>"

definition unmarshalSession :: "SessionObject \<Rightarrow> UserSession" where
  "unmarshalSession obj =
     \<lparr>State = json_state obj,
      CurrentKey = (case json_current_key obj of None \<Rightarrow> [] | Some key \<Rightarrow> key),
      UserData = json_user_data obj,
      LastUpdated = json_last_updated obj\<rparr>"

text \<open>
  \<^verbatim>\<open>json.MarshalIndent(s.Sessions, "", "  ")\<close>: one session object for each
  user id of the map. The call returns an error for values it cannot
  encode; a map of sessions has none, so it always returns a document.
\<close>

definition jsonMarshalIndent :: "(64 word \<rightharpoonup> UserSession) \<Rightarrow> FileData option" where
  "jsonMarshalIndent sessions =
     Some (Snapshot (\<lambda>userID. map_option marshalSession (sessions userID)))"

text \<open>
  \<^verbatim>\<open>json.Unmarshal(data, &s.Sessions)\<close> returns the map as it leaves it and
  whether it reports an error. For a snapshot it stores a new session under
  each user id of the document and keeps the other entries of the map. What
  it makes of any other text is the library's, and a parameter here.
\<close>

record JSONLibrary =
  unmarshalOther ::
    "string \<Rightarrow> (64 word \<rightharpoonup> UserSession) \<Rightarrow> (64 word \<rightharpoonup> UserSession) \<times> bool"

definition jsonUnmarshal ::
  "JSONLibrary \<Rightarrow> FileData \<Rightarrow> (64 word \<rightharpoonup> UserSession) \<Rightarrow>
     (64 word \<rightharpoonup> UserSession) \<times> bool" where
  "jsonUnmarshal lib data sessions =
     (case data of
        NoData \<Rightarrow> (sessions, True)
      | Snapshot objects \<Rightarrow>
          (sessions ++ (\<lambda>userID. map_option unmarshalSession (objects userID)), False)
      | OtherData text \<Rightarrow> unmarshalOther lib text sessions)"

text \<open>
  \<^verbatim>\<open>Save\<close> changes the file system only; both of its failures are logged
  and otherwise ignored.
\<close>

definition Save :: "ThreadSafeStorage \<Rightarrow> FileSystem \<Rightarrow> FileSystem" where
  "Save s fs =
     (case jsonMarshalIndent (Sessions s) of
        None \<Rightarrow> fs
      | Some data \<Rightarrow>
          (case WriteFile fs (FilePath s) data of
             None \<Rightarrow> fs
           | Some fs' \<Rightarrow> fs'))"

text \<open>
  \<^verbatim>\<open>Load\<close> changes the store only. It returns early when the file cannot
  be read and when it has no bytes; otherwise the map is what
  \<^verbatim>\<open>json.Unmarshal\<close> leaves in it, whether or not an error is logged.
\<close>

definition Load :: "JSONLibrary \<Rightarrow> ThreadSafeStorage \<Rightarrow> FileSystem \<Rightarrow> ThreadSafeStorage" where
  "Load lib s fs =
     (case ReadFile fs (FilePath s) of
        None \<Rightarrow> s
      | Some data \<Rightarrow>
          if data = NoData then s
          else s\<lparr>Sessions := fst (jsonUnmarshal lib data (Sessions s))\<rparr>)"

definition NewStorage :: "JSONLibrary \<Rightarrow> string \<Rightarrow> FileSystem \<Rightarrow> ThreadSafeStorage" where
  "NewStorage lib filePath fs = Load lib \<lparr>Sessions = Map.empty, FilePath = filePath\<rparr> fs"

section \<open>What the Go runtime and libraries contribute\<close>

text \<open>
  Three things the handlers use are decided outside the repository, and are
  taken as parameters of the model:
  \<^item> \<^verbatim>\<open>for k, v := range m\<close> yields the entries of a map in an order the
    Go runtime chooses afresh for each loop; \<open>mapRange rt m\<close> is the sequence
    of entries that one run yields for \<open>m\<close>;
  \<^item> \<^verbatim>\<open>strings.ToLower\<close> maps a text that has a byte outside ASCII through
    the Unicode tables; \<open>unicodeToLower rt\<close> stands for that path;
  \<^item> the \<^verbatim>\<open>.\<close> of a regular expression consumes one UTF-8 sequence;
    \<open>runeCount rt s\<close> is the number of such sequences in \<open>s\<close>.
\<close>

record GoRuntime =
  mapRange :: "(string \<rightharpoonup> string) \<Rightarrow> (string \<times> string) list"
  unicodeToLower :: "string \<Rightarrow> string"
  runeCount :: "string \<Rightarrow> nat"

text \<open>
  A sequence of entries is what a \<^verbatim>\<open>range\<close> loop over \<open>m\<close> can yield when it
  holds every entry of \<open>m\<close> once and nothing else.
\<close>

definition enumerates :: "('k \<times> 'v) list \<Rightarrow> ('k \<rightharpoonup> 'v) \<Rightarrow> bool" where
  "enumerates kvs m = (distinct (map fst kvs) \<and> map_of kvs = m)"

definition isUpperASCII :: "char \<Rightarrow> bool" where
  "isUpperASCII c = (65 \<le> (of_char c :: nat) \<and> (of_char c :: nat) \<le> 90)"

definition lowerASCII :: "char \<Rightarrow> char" where
  "lowerASCII c = (if isUpperASCII c then char_of ((of_char c :: nat) + 32) else c)"

definition isASCII :: "string \<Rightarrow> bool" where
  "isASCII s = list_all (\<lambda>c. (of_char c :: nat) < 128) s"

text \<open>
  \<^verbatim>\<open>strings.ToLower\<close>: a text of ASCII bytes only has its letters \<^verbatim>\<open>A\<close> to
  \<^verbatim>\<open>Z\<close> replaced byte by byte; any other text goes through the Unicode path.
\<close>

definition ToLower :: "GoRuntime \<Rightarrow> string \<Rightarrow> string" where
  "ToLower rt s = (if isASCII s then map lowerASCII s else unicodeToLower rt s)"

text \<open>\<^verbatim>\<open>strings.Join(elems, sep)\<close>.\<close>

fun Join :: "string list \<Rightarrow> string \<Rightarrow> string" where
  "Join [] sep = []"
| "Join [x] sep = x"
| "Join (x # y # ys) sep = x @ sep @ Join (y # ys) sep"

section \<open>Inbound and outbound messages\<close>

text \<open>
  Of an inbound \<^verbatim>\<open>tgbotapi.Message\<close> the handlers read the chat id, the text
  and the results of the library methods \<^verbatim>\<open>IsCommand()\<close> and \<^verbatim>\<open>Command()\<close>;
  these four are the fields of the model. An update is a message or nil.
\<close>

record Message =
  Chat_ID :: "64 word"
  Text :: string
  IsCommand :: bool
  Command :: string

type_synonym Update = "Message option"

datatype ReplyMarkup = NoMarkup | MainKeyboard | RemoveKeyboard

text \<open>What \<^verbatim>\<open>bot.Send\<close> is given: the model collects these in order.\<close>

record MessageConfig =
  ChatID :: "64 word"
  MsgText :: string
  Markup :: ReplyMarkup

definition NewMessage :: "64 word \<Rightarrow> string \<Rightarrow> MessageConfig" where
  "NewMessage chatID text = \<lparr>ChatID = chatID, MsgText = text, Markup = NoMarkup\<rparr>"

section \<open>Helper functions\<close>

definition factLine :: "string \<times> string \<Rightarrow> string" where
  "factLine kv = fst kv @ '' - '' @ snd kv"

definition factsToString :: "GoRuntime \<Rightarrow> (string \<rightharpoonup> string) \<Rightarrow> string" where
  "factsToString rt userData = Join (map factLine (mapRange rt userData)) [CHR 0x0A]"

section \<open>Bot logic handlers\<close>

text \<open>
  Each handler takes the session and returns the session as the source
  leaves it, with the messages handed to \<^verbatim>\<open>bot.Send\<close>.
\<close>

definition handleStart ::
  "GoRuntime \<Rightarrow> Message \<Rightarrow> UserSession \<Rightarrow> UserSession \<times> MessageConfig list" where
  \<open>handleStart rt msg session =
     (let reply = ''Hi! My name is Doctor Botter.'' @
            (if dom (UserData session) \<noteq> {}
             then '' You already told me your '' @
                  Join (map fst (mapRange rt (UserData session))) '', '' @
                  ''. Why don't you tell me something more about yourself? Or change anything I already know.''
             else '' I will hold a more complex conversation with you. Why don't you tell me something about yourself?'')
      in (session\<lparr>State := StateChoosing\<rparr>,
          [(NewMessage (Chat_ID msg) reply)\<lparr>Markup := MainKeyboard\<rparr>]))\<close>

definition handleRegularChoice ::
  "GoRuntime \<Rightarrow> Message \<Rightarrow> UserSession \<Rightarrow> UserSession \<times> MessageConfig list" where
  "handleRegularChoice rt msg session =
     (let text = ToLower rt (Text msg);
          session1 = session\<lparr>CurrentKey := text\<rparr>;
          replyText =
            (case UserData session1 text of
               Some val \<Rightarrow> ''Your '' @ text @ ''? I already know the following about that: '' @ val
             | None \<Rightarrow> ''Your '' @ text @ ''? Yes, I would love to hear about that!'')
      in (session1\<lparr>State := StateTypingReply\<rparr>, [NewMessage (Chat_ID msg) replyText]))"

definition handleCustomChoice ::
  "Message \<Rightarrow> UserSession \<Rightarrow> UserSession \<times> MessageConfig list" where
  \<open>handleCustomChoice msg session =
     (session\<lparr>State := StateTypingChoice\<rparr>,
      [NewMessage (Chat_ID msg)
         ''Alright, please send me the category first, for example "Most impressive skill"''])\<close>

definition handleReceivedInformation ::
  "GoRuntime \<Rightarrow> Message \<Rightarrow> UserSession \<Rightarrow> UserSession \<times> MessageConfig list" where
  "handleReceivedInformation rt msg session =
     (let text = Text msg;
          category = CurrentKey session;
          session1 = session\<lparr>UserData := (UserData session)(category \<mapsto> ToLower rt text)\<rparr>;
          session2 = session1\<lparr>CurrentKey := []\<rparr>;
          msgText = ''Neat! Just so you know, this is what you already told me:'' @ [CHR 0x0A] @
                    factsToString rt (UserData session2) @ [CHR 0x0A] @
                    ''You can tell me more, or change your opinion on something.''
      in (session2\<lparr>State := StateChoosing\<rparr>,
          [(NewMessage (Chat_ID msg) msgText)\<lparr>Markup := MainKeyboard\<rparr>]))"

definition handleDone ::
  "GoRuntime \<Rightarrow> Message \<Rightarrow> UserSession \<Rightarrow> UserSession \<times> MessageConfig list" where
  "handleDone rt msg session =
     (let session1 = session\<lparr>CurrentKey := []\<rparr>;
          msgText = ''I learned these facts about you:'' @ [CHR 0x0A] @
                    factsToString rt (UserData session1) @ [CHR 0x0A] @ ''Until next time!''
      in (session1\<lparr>State := StateChoosing\<rparr>,
          [(NewMessage (Chat_ID msg) msgText)\<lparr>Markup := RemoveKeyboard\<rparr>]))"

definition handleShowData ::
  "GoRuntime \<Rightarrow> Message \<Rightarrow> UserSession \<Rightarrow> UserSession \<times> MessageConfig list" where
  "handleShowData rt msg session =
     (let msgText = ''This is what you already told me:'' @ [CHR 0x0A] @
                    factsToString rt (UserData session)
      in (session, [NewMessage (Chat_ID msg) msgText]))"

subsection \<open>The three filters of \<^verbatim>\<open>ProcessUpdate\<close>\<close>

text \<open>
  \<^verbatim>\<open>(?i)^Done$\<close>: the whole text is four characters, each a letter of
  \<^verbatim>\<open>Done\<close> in either case (none of these letters has a case variant outside
  ASCII).
\<close>

definition isDone :: "string \<Rightarrow> bool" where
  "isDone text =
     (case text of
        [a, b, c, d] \<Rightarrow>
          (a = CHR ''D'' \<or> a = CHR ''d'') \<and> (b = CHR ''O'' \<or> b = CHR ''o'') \<and>
          (c = CHR ''N'' \<or> c = CHR ''n'') \<and> (d = CHR ''E'' \<or> d = CHR ''e'')
      | _ \<Rightarrow> False)"

text \<open>\<^verbatim>\<open>^(Age|Favourite colour|Number of siblings)$\<close>: one of three texts, as written.\<close>

definition isRegular :: "string \<Rightarrow> bool" where
  "isRegular text =
     (text = ''Age'' \<or> text = ''Favourite colour'' \<or> text = ''Number of siblings'')"

text \<open>
  \<^verbatim>\<open>^Something else...$\<close>: the three dots are not escaped, so each stands
  for any one character but a newline.
\<close>

definition isCustom :: "GoRuntime \<Rightarrow> string \<Rightarrow> bool" where
  "isCustom rt text =
     (take 14 text = ''Something else'' \<and>
      runeCount rt (drop 14 text) = 3 \<and>
      CHR 0x0A \<notin> set (drop 14 text))"

subsection \<open>Routing\<close>

definition ProcessUpdate ::
  "GoRuntime \<Rightarrow> Update \<Rightarrow> UserSession \<Rightarrow> UserSession \<times> MessageConfig list" where
  "ProcessUpdate rt update session =
     (case update of
        None \<Rightarrow> (session, [])
      | Some msg \<Rightarrow>
          let text = Text msg in
          if IsCommand msg \<and> Command msg = ''start'' then handleStart rt msg session
          else if IsCommand msg \<and> Command msg = ''show_data'' then handleShowData rt msg session
          else if State session = StateChoosing then
            (if isRegular text then handleRegularChoice rt msg session
             else if isCustom rt text then handleCustomChoice msg session
             else if isDone text then handleDone rt msg session
             else (session, []))
          else if State session = StateTypingChoice then
            (if \<not> isDone text then
               (let session1 = session\<lparr>CurrentKey := ToLower rt text\<rparr>;
                    replyText = ''Your '' @ CurrentKey session1 @
                                ''? Yes, I would love to hear about that!''
                in (session1\<lparr>State := StateTypingReply\<rparr>,
                    [NewMessage (Chat_ID msg) replyText]))
             else handleRegularChoice rt msg session)
          else if State session = StateTypingReply then
            (if \<not> isDone text then handleReceivedInformation rt msg session
             else handleDone rt msg session)
          else (session, []))"

section \<open>Concrete inputs\<close>

text \<open>
  A runtime whose \<^verbatim>\<open>range\<close> yields the given entries; on the ASCII texts
  of the examples its other two components are never consulted beyond
  counting bytes.
\<close>

definition exampleRuntime :: "(string \<times> string) list \<Rightarrow> GoRuntime" where
  "exampleRuntime kvs = \<lparr>mapRange = (\<lambda>m. kvs), unicodeToLower = (\<lambda>s. s), runeCount = length\<rparr>"

text \<open>An ordinary text message, and a message that starts with a bot command.\<close>

definition textMessage :: "string \<Rightarrow> Message" where
  "textMessage t = \<lparr>Chat_ID = 1, Text = t, IsCommand = False, Command = []\<rparr>"

definition commandMessage :: "string \<Rightarrow> Message" where
  "commandMessage c = \<lparr>Chat_ID = 1, Text = CHR ''/'' # c, IsCommand = True, Command = c\<rparr>"

section \<open>Notions the properties are stated with\<close>

text \<open>
  Two texts differ only in letter case when lowering the ASCII letters of
  both gives the same bytes.
\<close>

definition sameUpToCase :: "string \<Rightarrow> string \<Rightarrow> bool" where
  "sameUpToCase t1 t2 = (map lowerASCII t1 = map lowerASCII t2)"

text \<open>
  A key is case-normalized (lower-cased) when none of its bytes is a capital
  letter \<^verbatim>\<open>A\<close> to \<^verbatim>\<open>Z\<close>; which byte sequences outside ASCII are capital
  letters is in the Unicode tables of the library. The invariant of a session
  is that its \<^verbatim>\<open>CurrentKey\<close> and every key of its facts are case-normalized.
\<close>

definition caseNormalized :: "string \<Rightarrow> bool" where
  "caseNormalized k = list_all (\<lambda>c. \<not> isUpperASCII c) k"

definition keysNormalized :: "UserSession \<Rightarrow> bool" where
  "keysNormalized s =
     (caseNormalized (CurrentKey s) \<and> (\<forall>k \<in> dom (UserData s). caseNormalized k))"

text \<open>
  The sessions that a fresh session can become, one update after the other.
  Each update may see another order of \<^verbatim>\<open>range\<close>; the two library functions
  are the same throughout.
\<close>

inductive reachable :: "GoRuntime \<Rightarrow> UserSession \<Rightarrow> bool" for rt :: GoRuntime where
  reachable_new: "reachable rt newUserSession"
| reachable_step:
    "reachable rt s \<Longrightarrow> unicodeToLower rt' = unicodeToLower rt \<Longrightarrow>
     runeCount rt' = runeCount rt \<Longrightarrow>
     reachable rt (fst (ProcessUpdate rt' u s))"

subsection \<open>Sessions and stores of the examples\<close>

definition twoFacts :: "string \<rightharpoonup> string" where
  "twoFacts = [''age'' \<mapsto> ''30'', ''color'' \<mapsto> ''blue'']"

definition twoFactsSession :: UserSession where
  "twoFactsSession =
     \<lparr>State = StateChoosing, CurrentKey = [], UserData = twoFacts, LastUpdated = 0\<rparr>"

definition typingSession :: "int \<Rightarrow> string \<Rightarrow> (string \<rightharpoonup> string) \<Rightarrow> UserSession" where
  "typingSession st key facts =
     \<lparr>State = st, CurrentKey = key, UserData = facts, LastUpdated = 0\<rparr>"

text \<open>The store of \<^verbatim>\<open>TestStoragePersistence\<close>.\<close>

definition testStorage :: ThreadSafeStorage where
  "testStorage =
     \<lparr>Sessions = [12345 \<mapsto> typingSession StateTypingReply [] [''age'' \<mapsto> ''30'']],
      FilePath = ''test_storage.json''\<rparr>"

text \<open>
  A library that reports an error for every text that is not a snapshot and
  leaves the map as it is, and two file systems without files: one that
  accepts every write, one that refuses every write.
\<close>

definition strictLibrary :: JSONLibrary where
  "strictLibrary = \<lparr>unmarshalOther = (\<lambda>text sessions. (sessions, True))\<rparr>"

definition emptyDisk :: FileSystem where
  "emptyDisk = \<lparr>files = Map.empty, writable = (\<lambda>_. True)\<rparr>"

definition readOnlyDisk :: FileSystem where
  "readOnlyDisk = \<lparr>files = Map.empty, writable = (\<lambda>_. False)\<rparr>"

text \<open>
  A second runtime with the same library functions as \<open>exampleRuntime\<close>: its
  \<^verbatim>\<open>range\<close> yields nothing for the empty map and the given entries otherwise.
\<close>

definition otherRuntime :: "(string \<times> string) list \<Rightarrow> GoRuntime" where
  "otherRuntime kvs =
     \<lparr>mapRange = (\<lambda>m. if m = Map.empty then [] else kvs),
      unicodeToLower = (\<lambda>s. s), runeCount = length\<rparr>"

text \<open>
  A runtime whose Unicode path lowers the letters \<^verbatim>\<open>A\<close> to \<^verbatim>\<open>Z\<close> of a text
  and leaves its other bytes.
\<close>

definition loweringRuntime :: "(string \<times> string) list \<Rightarrow> GoRuntime" where
  "loweringRuntime kvs =
     \<lparr>mapRange = (\<lambda>m. kvs), unicodeToLower = map lowerASCII, runeCount = length\<rparr>"

section \<open>Properties of the helpers\<close>

lemmas lower_eval =
  ToLower_def isASCII_def lowerASCII_def isUpperASCII_def char_of_def bit_Suc_0_iff

lemmas state_defs = StateChoosing_def StateTypingChoice_def StateTypingReply_def

lemmas handler_defs =
  handleStart_def handleShowData_def handleDone_def handleRegularChoice_def
  handleCustomChoice_def handleReceivedInformation_def

lemmas example_defs =
  exampleRuntime_def textMessage_def commandMessage_def typingSession_def NewMessage_def

subsection \<open>Lower-casing\<close>

lemma lowerASCII_eq_d: "lowerASCII a = CHR ''d'' \<longleftrightarrow> a = CHR ''D'' \<or> a = CHR ''d''"
  by (cases a) (auto simp: lowerASCII_def isUpperASCII_def char_of_def bit_Suc_0_iff)

lemma lowerASCII_eq_o: "lowerASCII a = CHR ''o'' \<longleftrightarrow> a = CHR ''O'' \<or> a = CHR ''o''"
  by (cases a) (auto simp: lowerASCII_def isUpperASCII_def char_of_def bit_Suc_0_iff)

lemma lowerASCII_eq_n: "lowerASCII a = CHR ''n'' \<longleftrightarrow> a = CHR ''N'' \<or> a = CHR ''n''"
  by (cases a) (auto simp: lowerASCII_def isUpperASCII_def char_of_def bit_Suc_0_iff)

lemma lowerASCII_eq_e: "lowerASCII a = CHR ''e'' \<longleftrightarrow> a = CHR ''E'' \<or> a = CHR ''e''"
  by (cases a) (auto simp: lowerASCII_def isUpperASCII_def char_of_def bit_Suc_0_iff)

text \<open>Lowering a byte never leaves a capital letter, and changes nothing the second time.\<close>

lemma lowerASCII_not_upper: "\<not> isUpperASCII (lowerASCII c)"
  by (simp add: lowerASCII_def isUpperASCII_def)

lemma lowerASCII_idem: "lowerASCII (lowerASCII c) = lowerASCII c"
  using lowerASCII_not_upper [of c] by (simp add: lowerASCII_def [of "lowerASCII c"])

lemma ToLower_ASCII_no_upper:
  assumes "isASCII t" and "c \<in> set (ToLower rt t)"
  shows "\<not> isUpperASCII c"
  using assms lowerASCII_not_upper by (auto simp: ToLower_def)

lemma ToLower_cong: "unicodeToLower rt1 = unicodeToLower rt2 \<Longrightarrow> ToLower rt1 = ToLower rt2"
  by (simp add: ToLower_def fun_eq_iff)

lemma caseNormalized_map_lowerASCII: "caseNormalized (map lowerASCII t)"
  by (simp add: caseNormalized_def list_all_iff lowerASCII_not_upper)

text \<open>
  \<^verbatim>\<open>strings.ToLower\<close> returns no capital letter \<^verbatim>\<open>A\<close> to \<^verbatim>\<open>Z\<close>, given that
  its Unicode path returns none.
\<close>

lemma caseNormalized_ToLower:
  assumes "\<forall>t. caseNormalized (unicodeToLower rt t)"
  shows "caseNormalized (ToLower rt t)"
  using assms by (simp add: ToLower_def caseNormalized_map_lowerASCII)

subsection \<open>The filters\<close>

lemma isDone_iff: "isDone t \<longleftrightarrow> map lowerASCII t = ''done''"
  by (simp add: isDone_def lowerASCII_eq_d lowerASCII_eq_o lowerASCII_eq_n lowerASCII_eq_e
      split: list.splits)

lemma isDone_length: "isDone t \<Longrightarrow> length t = 4"
  by (auto simp: isDone_def split: list.splits)

lemma isDone_not_isRegular: "isDone t \<Longrightarrow> \<not> isRegular t"
  by (auto simp: isRegular_def dest: isDone_length)

lemma isDone_not_isCustom: "isDone t \<Longrightarrow> \<not> isCustom rt t"
proof
  assume d: "isDone t" and c: "isCustom rt t"
  from c have "length (take 14 t) = length ''Something else''"
    unfolding isCustom_def by simp
  with isDone_length [OF d] show False by simp
qed

lemma isCustom_cong: "runeCount rt1 = runeCount rt2 \<Longrightarrow> isCustom rt1 = isCustom rt2"
  by (simp add: isCustom_def fun_eq_iff)

subsection \<open>What a \<^verbatim>\<open>range\<close> loop yields\<close>

lemma enumerates_set: "enumerates kvs m \<Longrightarrow> set kvs = {(k, v). m k = Some v}"
  by (auto simp: enumerates_def)

lemma enumerates_distinct: "enumerates kvs m \<Longrightarrow> distinct kvs"
  by (auto simp: enumerates_def distinct_map)

lemma enumerates_length:
  assumes "enumerates kvs m"
  shows "length kvs = card (dom m)"
proof -
  from assms have "dom m = set (map fst kvs)"
    by (force simp: enumerates_def dom_map_of_conv_image_fst)
  moreover from assms have "distinct (map fst kvs)"
    by (simp add: enumerates_def)
  ultimately show ?thesis
    by (simp add: distinct_card del: set_map)
qed

text \<open>A map with at most one entry can be enumerated in one way only.\<close>

lemma enumerates_unique:
  assumes "enumerates kvs1 m" and "enumerates kvs2 m" and "card (dom m) \<le> 1"
  shows "kvs1 = kvs2"
proof -
  have l1: "length kvs1 \<le> 1" and l2: "length kvs2 \<le> 1"
    using assms by (simp_all add: enumerates_length)
  have s: "set kvs1 = set kvs2"
    using assms by (simp add: enumerates_set)
  show ?thesis
  proof (cases kvs1)
    case Nil
    with s show ?thesis by simp
  next
    case (Cons a as)
    with l1 have "kvs1 = [a]" by simp
    with s l2 show ?thesis by (cases kvs2) auto
  qed
qed

lemma enumerates_twoFacts:
  "enumerates [(''age'', ''30''), (''color'', ''blue'')] twoFacts"
  "enumerates [(''color'', ''blue''), (''age'', ''30'')] twoFacts"
  by (auto simp: enumerates_def twoFacts_def fun_eq_iff)

lemma mapRange_exampleRuntime: "mapRange (exampleRuntime kvs) m = kvs"
  by (simp add: exampleRuntime_def)

subsection \<open>The snapshot\<close>

text \<open>The session built from the session object of a session is that session.\<close>

lemma unmarshalSession_marshalSession: "unmarshalSession (marshalSession session) = session"
  by (simp add: unmarshalSession_def marshalSession_def)

subsection \<open>The handlers and the router\<close>

lemma handleDone_result:
  "handleDone rt msg s =
     (s\<lparr>CurrentKey := [], State := StateChoosing\<rparr>,
      [\<lparr>ChatID = Chat_ID msg,
        MsgText = ''I learned these facts about you:'' @ [CHR 0x0A] @
                  factsToString rt (UserData s) @ [CHR 0x0A] @ ''Until next time!'',
        Markup = RemoveKeyboard\<rparr>])"
  by (simp add: handleDone_def NewMessage_def)

text \<open>In the states Choosing and TypingReply a text that is Done reaches \<^verbatim>\<open>handleDone\<close>.\<close>

lemma Done_in_Choosing_or_TypingReply:
  assumes "isDone (Text msg)" and "\<not> IsCommand msg"
    and "State s = StateChoosing \<or> State s = StateTypingReply"
  shows "ProcessUpdate rt (Some msg) s = handleDone rt msg s"
  using assms
  by (auto simp: ProcessUpdate_def isDone_not_isRegular isDone_not_isCustom state_defs)

text \<open>The order of \<^verbatim>\<open>range\<close> has no part in the session an update leaves.\<close>

lemma ProcessUpdate_fst_cong:
  assumes "unicodeToLower rt1 = unicodeToLower rt2" and "runeCount rt1 = runeCount rt2"
  shows "fst (ProcessUpdate rt1 u s) = fst (ProcessUpdate rt2 u s)"
  using ToLower_cong [OF assms(1)] isCustom_cong [OF assms(2)]
  by (simp add: ProcessUpdate_def handler_defs Let_def split: option.splits)

text \<open>
  The one map an update enumerates is the facts of the session it leaves; when two
  runs enumerate it alike, they send the same messages.
\<close>

lemma handleStart_range:
  "mapRange rt1 (UserData (fst (handleStart rt1 msg s))) = mapRange rt2 (UserData (fst (handleStart rt1 msg s)))
   \<Longrightarrow> snd (handleStart rt1 msg s) = snd (handleStart rt2 msg s)"
  by (simp add: handleStart_def)

lemma handleShowData_range:
  "mapRange rt1 (UserData (fst (handleShowData rt1 msg s))) = mapRange rt2 (UserData (fst (handleShowData rt1 msg s)))
   \<Longrightarrow> snd (handleShowData rt1 msg s) = snd (handleShowData rt2 msg s)"
  by (simp add: handleShowData_def factsToString_def)

lemma handleDone_range:
  "mapRange rt1 (UserData (fst (handleDone rt1 msg s))) = mapRange rt2 (UserData (fst (handleDone rt1 msg s)))
   \<Longrightarrow> snd (handleDone rt1 msg s) = snd (handleDone rt2 msg s)"
  by (simp add: handleDone_def factsToString_def)

lemma handleReceivedInformation_range:
  "ToLower rt1 = ToLower rt2 \<Longrightarrow>
   mapRange rt1 (UserData (fst (handleReceivedInformation rt1 msg s))) =
   mapRange rt2 (UserData (fst (handleReceivedInformation rt1 msg s)))
   \<Longrightarrow> snd (handleReceivedInformation rt1 msg s) = snd (handleReceivedInformation rt2 msg s)"
  by (simp add: handleReceivedInformation_def factsToString_def Let_def)

lemma handleRegularChoice_range:
  "ToLower rt1 = ToLower rt2 \<Longrightarrow>
   snd (handleRegularChoice rt1 msg s) = snd (handleRegularChoice rt2 msg s)"
  by (simp add: handleRegularChoice_def Let_def)

lemma ProcessUpdate_snd_cong:
  assumes "unicodeToLower rt1 = unicodeToLower rt2" and "runeCount rt1 = runeCount rt2"
    and "mapRange rt1 (UserData (fst (ProcessUpdate rt1 u s))) =
         mapRange rt2 (UserData (fst (ProcessUpdate rt1 u s)))"
  shows "snd (ProcessUpdate rt1 u s) = snd (ProcessUpdate rt2 u s)"
proof (cases u)
  case None
  then show ?thesis by (simp add: ProcessUpdate_def)
next
  case (Some msg)
  note tl = ToLower_cong [OF assms(1)] and ic = isCustom_cong [OF assms(2)]
  note rg = assms(3) [unfolded Some]
  consider
      (start) "IsCommand msg \<and> Command msg = ''start''"
    | (show_data) "\<not> (IsCommand msg \<and> Command msg = ''start'')"
        "IsCommand msg \<and> Command msg = ''show_data''"
    | (finished) "\<not> (IsCommand msg \<and> Command msg = ''start'')"
        "\<not> (IsCommand msg \<and> Command msg = ''show_data'')"
        "isDone (Text msg)" "State s = StateChoosing \<or> State s = StateTypingReply"
    | (received) "\<not> (IsCommand msg \<and> Command msg = ''start'')"
        "\<not> (IsCommand msg \<and> Command msg = ''show_data'')"
        "\<not> isDone (Text msg)" "State s = StateTypingReply"
    | (other) "\<not> (IsCommand msg \<and> Command msg = ''start'')"
        "\<not> (IsCommand msg \<and> Command msg = ''show_data'')"
        "\<not> (isDone (Text msg) \<and> (State s = StateChoosing \<or> State s = StateTypingReply))"
        "\<not> (\<not> isDone (Text msg) \<and> State s = StateTypingReply)"
    by blast
  then show ?thesis
  proof cases
    case start
    then have "\<And>rt. ProcessUpdate rt (Some msg) s = handleStart rt msg s"
      by (simp add: ProcessUpdate_def Let_def)
    then have e: "ProcessUpdate rt1 (Some msg) s = handleStart rt1 msg s"
      "ProcessUpdate rt2 (Some msg) s = handleStart rt2 msg s" by simp_all
    show ?thesis using rg unfolding Some e by (rule handleStart_range)
  next
    case show_data
    then have "\<And>rt. ProcessUpdate rt (Some msg) s = handleShowData rt msg s"
      by (simp add: ProcessUpdate_def Let_def)
    then have e: "ProcessUpdate rt1 (Some msg) s = handleShowData rt1 msg s"
      "ProcessUpdate rt2 (Some msg) s = handleShowData rt2 msg s" by simp_all
    show ?thesis using rg unfolding Some e by (rule handleShowData_range)
  next
    case finished
    then have "\<And>rt. ProcessUpdate rt (Some msg) s = handleDone rt msg s"
      by (auto simp: ProcessUpdate_def isDone_not_isRegular isDone_not_isCustom state_defs)
    then have e: "ProcessUpdate rt1 (Some msg) s = handleDone rt1 msg s"
      "ProcessUpdate rt2 (Some msg) s = handleDone rt2 msg s" by simp_all
    show ?thesis using rg unfolding Some e by (rule handleDone_range)
  next
    case received
    then have "\<And>rt. ProcessUpdate rt (Some msg) s = handleReceivedInformation rt msg s"
      by (auto simp: ProcessUpdate_def state_defs Let_def)
    then have e: "ProcessUpdate rt1 (Some msg) s = handleReceivedInformation rt1 msg s"
      "ProcessUpdate rt2 (Some msg) s = handleReceivedInformation rt2 msg s" by simp_all
    show ?thesis using rg unfolding Some e by (rule handleReceivedInformation_range [OF tl])
  next
    case other
    then have "\<And>rt. snd (ProcessUpdate rt (Some msg) s) =
       (if State s = StateChoosing then
          (if isRegular (Text msg) then snd (handleRegularChoice rt msg s)
           else if isCustom rt (Text msg) then snd (handleCustomChoice msg s) else [])
        else if State s = StateTypingChoice then
          (if \<not> isDone (Text msg) then
             [NewMessage (Chat_ID msg)
                (''Your '' @ ToLower rt (Text msg) @ ''? Yes, I would love to hear about that!'')]
           else snd (handleRegularChoice rt msg s))
        else [])"
      by (auto simp: ProcessUpdate_def Let_def)
    then show ?thesis unfolding Some
      by (simp add: ic tl handleRegularChoice_range [OF tl])
  qed
qed

text \<open>
  Every update keeps the invariant: the keys it sets are values of
  \<^verbatim>\<open>strings.ToLower\<close> or empty, and the one insertion into the facts is under
  \<^verbatim>\<open>CurrentKey\<close>.
\<close>

lemma keysNormalized_step:
  assumes "\<forall>t. caseNormalized (unicodeToLower rt t)" and "keysNormalized s"
  shows "keysNormalized (fst (ProcessUpdate rt u s))"
proof -
  have "\<And>t. caseNormalized (ToLower rt t)"
    using assms(1) by (rule caseNormalized_ToLower)
  moreover have "caseNormalized []"
    by (simp add: caseNormalized_def)
  ultimately show ?thesis
    using assms(2)
    by (auto simp: keysNormalized_def ProcessUpdate_def handler_defs Let_def
        split: option.splits)
qed

lemma reachable_keysNormalized:
  assumes "\<forall>t. caseNormalized (unicodeToLower rt t)"
  shows "reachable rt s \<Longrightarrow> keysNormalized s"
proof (induction rule: reachable.induct)
  case reachable_new
  show ?case
    by (simp add: keysNormalized_def newUserSession_def caseNormalized_def)
next
  case (reachable_step s rt' u)
  have "fst (ProcessUpdate rt' u s) = fst (ProcessUpdate rt u s)"
    using reachable_step.hyps(2,3) by (rule ProcessUpdate_fst_cong)
  with reachable_step.IH show ?case
    by (simp add: keysNormalized_step [OF assms])
qed

text \<open>The \<^verbatim>\<open>show_data\<close> command on the session with two facts, in both orders of \<^verbatim>\<open>range\<close>.\<close>

lemma show_data_age_first:
  "ProcessUpdate (exampleRuntime [(''age'', ''30''), (''color'', ''blue'')])
      (Some (commandMessage ''show_data'')) twoFactsSession
    = (twoFactsSession,
       [NewMessage 1 (''This is what you already told me:'' @ [CHR 0x0A] @
                      ''age - 30'' @ [CHR 0x0A] @ ''color - blue'')])"
  by (simp add: ProcessUpdate_def handleShowData_def factsToString_def commandMessage_def
      exampleRuntime_def factLine_def)

lemma show_data_color_first:
  "ProcessUpdate (exampleRuntime [(''color'', ''blue''), (''age'', ''30'')])
      (Some (commandMessage ''show_data'')) twoFactsSession
    = (twoFactsSession,
       [NewMessage 1 (''This is what you already told me:'' @ [CHR 0x0A] @
                      ''color - blue'' @ [CHR 0x0A] @ ''age - 30'')])"
  by (simp add: ProcessUpdate_def handleShowData_def factsToString_def commandMessage_def
      exampleRuntime_def factLine_def)

lemma start_command_session:
  assumes "IsCommand msg" and "Command msg = ''start''"
  shows "fst (ProcessUpdate rt (Some msg) s) = s\<lparr>State := StateChoosing\<rparr>"
  using assms by (simp add: ProcessUpdate_def handleStart_def)

section \<open>The state machine: Done and start\<close>

text \<open>
  C1. The claim is that a text classified as Done, in every one of the three
  states, clears \<^verbatim>\<open>CurrentKey\<close>, sends the summary of the facts and leaves
  the session in Choosing. In Choosing and in TypingReply the router calls
  \<^verbatim>\<open>handleDone\<close>, which does so (\<open>Done_in_Choosing_or_TypingReply\<close>,
  \<open>handleDone_result\<close>). In TypingChoice the branch for a Done text calls
  \<^verbatim>\<open>handleRegularChoice\<close>: the session that has just asked for a custom
  category and receives \<^verbatim>\<open>Done\<close> ends in TypingReply with \<^verbatim>\<open>CurrentKey\<close>
  \<^verbatim>\<open>done\<close>, and the one message sent asks about "done"; no summary is sent.
\<close>

theorem C1_Done_in_TypingChoice:
  "ProcessUpdate (exampleRuntime []) (Some (textMessage ''Done''))
       (typingSession StateTypingChoice [] Map.empty)
     = (typingSession StateTypingReply ''done'' Map.empty,
        [\<lparr>ChatID = 1, MsgText = ''Your done? Yes, I would love to hear about that!'',
          Markup = NoMarkup\<rparr>]) \<and>
   isDone ''Done'' \<and> StateTypingReply \<noteq> StateChoosing"
  by (simp add: ProcessUpdate_def handleRegularChoice_def isDone_def lower_eval state_defs
      example_defs)

text \<open>
  C2. The claim is that the start command, in every state and with every
  \<^verbatim>\<open>CurrentKey\<close>, leaves the session in Choosing with \<^verbatim>\<open>CurrentKey\<close> empty
  and the facts as they were. \<^verbatim>\<open>handleStart\<close> sets the state and changes
  nothing else (\<open>start_command_session\<close>): the session that waits for the
  value of \<^verbatim>\<open>age\<close> and receives \<^verbatim>\<open>/start\<close> ends in Choosing with
  \<^verbatim>\<open>CurrentKey\<close> still \<^verbatim>\<open>age\<close>.
\<close>

theorem C2_start_keeps_CurrentKey:
  "ProcessUpdate (exampleRuntime []) (Some (commandMessage ''start''))
       (typingSession StateTypingReply ''age'' Map.empty)
     = (typingSession StateChoosing ''age'' Map.empty,
        [\<lparr>ChatID = 1,
          MsgText = ''Hi! My name is Doctor Botter. I will hold a more complex conversation with you. Why don't you tell me something about yourself?'',
          Markup = MainKeyboard\<rparr>]) \<and>
   CurrentKey (typingSession StateChoosing ''age'' Map.empty) \<noteq> []"
  by (simp add: ProcessUpdate_def handleStart_def example_defs)

section \<open>The state machine: recording a fact\<close>

text \<open>
  C3, as claimed: in TypingReply a text that is neither Done nor a command is
  stored unmodified under \<^verbatim>\<open>CurrentKey\<close>. It is not: the session that waits
  for the value of \<^verbatim>\<open>favourite food\<close> and receives \<^verbatim>\<open>Pizza\<close> stores
  \<^verbatim>\<open>pizza\<close>.
\<close>

theorem C3_raw_text_counterexample:
  "State (typingSession StateTypingReply ''favourite food'' Map.empty) = StateTypingReply \<and>
   \<not> isDone (Text (textMessage ''Pizza'')) \<and> \<not> IsCommand (textMessage ''Pizza'') \<and>
   UserData (fst (ProcessUpdate (exampleRuntime [(''favourite food'', ''pizza'')])
                    (Some (textMessage ''Pizza''))
                    (typingSession StateTypingReply ''favourite food'' Map.empty)))
       ''favourite food'' = Some ''pizza'' \<and>
   ''pizza'' \<noteq> Text (textMessage ''Pizza'')"
  by (simp add: ProcessUpdate_def handleReceivedInformation_def isDone_def lower_eval state_defs
      example_defs Let_def)

text \<open>
  C3, amended: in TypingReply a text that is neither Done nor a command is
  stored, lower-cased by \<^verbatim>\<open>strings.ToLower\<close>, under \<^verbatim>\<open>CurrentKey\<close>; every
  other fact is as before, \<^verbatim>\<open>CurrentKey\<close> becomes empty and the state
  Choosing.
\<close>

theorem C3_stores_lowered_text:
  assumes "State s = StateTypingReply" and "\<not> isDone (Text msg)" and "\<not> IsCommand msg"
  shows "fst (ProcessUpdate rt (Some msg) s) =
           s\<lparr>UserData := (UserData s)(CurrentKey s \<mapsto> ToLower rt (Text msg)),
              CurrentKey := [], State := StateChoosing\<rparr>"
  using assms by (simp add: ProcessUpdate_def handleReceivedInformation_def state_defs Let_def)

theorem C3_stores_lowered_text_witness:
  "State (typingSession StateTypingReply ''age'' Map.empty) = StateTypingReply \<and>
   \<not> isDone (Text (textMessage ''17'')) \<and> \<not> IsCommand (textMessage ''17'') \<and>
   fst (ProcessUpdate (exampleRuntime [(''age'', ''17'')]) (Some (textMessage ''17''))
          (typingSession StateTypingReply ''age'' Map.empty))
     = typingSession StateChoosing [] [''age'' \<mapsto> ''17'']"
proof -
  have h: "State (typingSession StateTypingReply ''age'' Map.empty) = StateTypingReply"
    "\<not> isDone (Text (textMessage ''17''))" "\<not> IsCommand (textMessage ''17'')"
    by (simp_all add: isDone_def example_defs)
  from C3_stores_lowered_text [OF h, of "exampleRuntime [(''age'', ''17'')]"] h
  show ?thesis by (simp add: lower_eval example_defs)
qed

section \<open>Classification of the inbound text\<close>

text \<open>
  C4, as claimed: each of the three classifications gives the same answer for
  two texts that differ only in letter case. The filters for the regular
  categories and for the custom category are written without the \<^verbatim>\<open>(?i)\<close>
  flag: \<^verbatim>\<open>Age\<close> is a regular category and \<^verbatim>\<open>age\<close> is not,
  \<^verbatim>\<open>Something else...\<close> asks for a custom category and
  \<^verbatim>\<open>something else...\<close> does not.
\<close>

theorem C4_case_sensitive_counterexample:
  "sameUpToCase ''Age'' ''age'' \<and> isRegular ''Age'' \<and> \<not> isRegular ''age'' \<and>
   sameUpToCase ''Something else...'' ''something else...'' \<and>
   isCustom (exampleRuntime []) ''Something else...'' \<and>
   \<not> isCustom (exampleRuntime []) ''something else...''"
  by (simp add: sameUpToCase_def isRegular_def isCustom_def exampleRuntime_def
      lowerASCII_def isUpperASCII_def char_of_def bit_Suc_0_iff)

text \<open>
  C4, amended: the Done classification alone is case-insensitive: two texts
  that differ only in the case of their ASCII letters are both Done or both not.
  The regular categories and the words of the custom-category phrase are
  matched as written: of the texts that differ only in case, at most one is a
  regular category, and those that ask for a custom category begin with the
  same fourteen bytes.
\<close>

theorem C4_Done_case_insensitive:
  assumes "sameUpToCase t1 t2"
  shows "isDone t1 = isDone t2 \<and>
         (isRegular t1 \<and> isRegular t2 \<longrightarrow> t1 = t2) \<and>
         (isCustom rt t1 \<and> isCustom rt t2 \<longrightarrow> take 14 t1 = take 14 t2)"
proof (intro conjI)
  from assms show "isDone t1 = isDone t2"
    by (simp add: isDone_iff sameUpToCase_def)
  from assms show "isRegular t1 \<and> isRegular t2 \<longrightarrow> t1 = t2"
    by (auto simp: isRegular_def sameUpToCase_def)
  show "isCustom rt t1 \<and> isCustom rt t2 \<longrightarrow> take 14 t1 = take 14 t2"
    by (simp add: isCustom_def)
qed

theorem C4_Done_case_insensitive_witness:
  "sameUpToCase ''Done'' ''dONE'' \<and> isDone ''Done'' \<and> isDone ''dONE''"
proof -
  have h: "sameUpToCase ''Done'' ''dONE''"
    by (simp add: sameUpToCase_def lowerASCII_def isUpperASCII_def char_of_def bit_Suc_0_iff)
  have "isDone ''Done''"
    by (simp add: isDone_def)
  with C4_Done_case_insensitive [OF h] h show ?thesis by simp
qed

section \<open>Persistence\<close>

text \<open>
  C5, as claimed: for every store that holds a session, \<^verbatim>\<open>Save\<close> followed
  by a load of the same path into a fresh store gives back an equal record.
  \<^verbatim>\<open>Save\<close> logs a failed write and returns: when the path cannot be
  written (here, on a disk that refuses every write and holds no file), the
  fresh store finds no file and holds no session at all.
\<close>

theorem C5_failed_write_counterexample:
  "GetSession testStorage 12345 = Some (typingSession StateTypingReply [] [''age'' \<mapsto> ''30'']) \<and>
   GetSession (NewStorage strictLibrary (FilePath testStorage) (Save testStorage readOnlyDisk))
       12345
     = None"
  by (simp add: GetSession_def NewStorage_def Load_def Save_def ReadFile_def WriteFile_def
      jsonMarshalIndent_def readOnlyDisk_def testStorage_def)

text \<open>
  C5, amended: for every store, with whatever sessions, and every path that can
  be written, \<^verbatim>\<open>Save\<close> followed by a load of that path into a fresh store
  gives a store equal to the original: every lookup returns a record equal
  to the original one, in state, facts, \<^verbatim>\<open>CurrentKey\<close> and
  \<^verbatim>\<open>LastUpdated\<close>.
\<close>

theorem C5_Save_then_Load:
  assumes "writable fs (FilePath s)"
  shows "NewStorage lib (FilePath s) (Save s fs) = s \<and>
         GetSession (NewStorage lib (FilePath s) (Save s fs)) userID = GetSession s userID"
proof -
  have "Save s fs =
          fs\<lparr>files := (files fs)(FilePath s \<mapsto>
                Snapshot (\<lambda>userID. map_option marshalSession (Sessions s userID)))\<rparr>"
    using assms by (simp add: Save_def jsonMarshalIndent_def WriteFile_def)
  then have "Sessions (NewStorage lib (FilePath s) (Save s fs)) =
          Map.empty ++ (\<lambda>userID. map_option unmarshalSession
                                   (map_option marshalSession (Sessions s userID)))"
    and p: "FilePath (NewStorage lib (FilePath s) (Save s fs)) = FilePath s"
    by (simp_all add: NewStorage_def Load_def ReadFile_def jsonUnmarshal_def)
  then have "Sessions (NewStorage lib (FilePath s) (Save s fs)) = Sessions s"
    by (simp add: option.map_comp comp_def unmarshalSession_marshalSession option.map_ident)
  with p show ?thesis
    by (simp add: GetSession_def)
qed

theorem C5_Save_then_Load_witness:
  "writable emptyDisk (FilePath testStorage) \<and>
   files (Save testStorage emptyDisk) ''test_storage.json''
     = Some (Snapshot [12345 \<mapsto> \<lparr>json_state = 1, json_current_key = None,
                                   json_user_data = [''age'' \<mapsto> ''30''],
                                   json_last_updated = 0\<rparr>]) \<and>
   NewStorage strictLibrary (FilePath testStorage) (Save testStorage emptyDisk) = testStorage \<and>
   GetSession (NewStorage strictLibrary (FilePath testStorage) (Save testStorage emptyDisk)) 12345
     = Some (typingSession StateTypingReply [] [''age'' \<mapsto> ''30''])"
proof -
  have h: "writable emptyDisk (FilePath testStorage)"
    by (simp add: emptyDisk_def)
  have d: "files (Save testStorage emptyDisk) ''test_storage.json''
     = Some (Snapshot [12345 \<mapsto> \<lparr>json_state = 1, json_current_key = None,
                                   json_user_data = [''age'' \<mapsto> ''30''],
                                   json_last_updated = 0\<rparr>])"
    by (auto simp: Save_def jsonMarshalIndent_def WriteFile_def marshalSession_def
        emptyDisk_def testStorage_def typingSession_def StateTypingReply_def fun_eq_iff)
  have g: "GetSession testStorage 12345 = Some (typingSession StateTypingReply [] [''age'' \<mapsto> ''30''])"
    by (simp add: GetSession_def testStorage_def)
  from C5_Save_then_Load [OF h, of strictLibrary 12345] h d g show ?thesis by simp
qed

section \<open>The show command\<close>

text \<open>
  C6, as claimed: the reply to the show command equals the facts, one line
  \<^verbatim>\<open><category> - <value>\<close> each, joined by newlines; for the facts age 30
  and color blue it equals the two lines in some order. The reply begins with
  a line of its own: for these facts it is neither of the two-line texts, in
  whichever order \<^verbatim>\<open>range\<close> yields them.
\<close>

theorem C6_reply_has_header_counterexample:
  "enumerates [(''age'', ''30''), (''color'', ''blue'')] (UserData twoFactsSession) \<and>
   enumerates [(''color'', ''blue''), (''age'', ''30'')] (UserData twoFactsSession) \<and>
   map MsgText (snd (ProcessUpdate (exampleRuntime [(''age'', ''30''), (''color'', ''blue'')])
                       (Some (commandMessage ''show_data'')) twoFactsSession))
     = [''This is what you already told me:'' @ [CHR 0x0A] @
        ''age - 30'' @ [CHR 0x0A] @ ''color - blue''] \<and>
   map MsgText (snd (ProcessUpdate (exampleRuntime [(''color'', ''blue''), (''age'', ''30'')])
                       (Some (commandMessage ''show_data'')) twoFactsSession))
     = [''This is what you already told me:'' @ [CHR 0x0A] @
        ''color - blue'' @ [CHR 0x0A] @ ''age - 30''] \<and>
   ''This is what you already told me:'' @ [CHR 0x0A] @ ''age - 30'' @ [CHR 0x0A] @ ''color - blue''
     \<noteq> ''age - 30'' @ [CHR 0x0A] @ ''color - blue'' \<and>
   ''This is what you already told me:'' @ [CHR 0x0A] @ ''color - blue'' @ [CHR 0x0A] @ ''age - 30''
     \<noteq> ''color - blue'' @ [CHR 0x0A] @ ''age - 30''"
proof -
  have "UserData twoFactsSession = twoFacts"
    by (simp add: twoFactsSession_def)
  then show ?thesis
    by (simp add: enumerates_twoFacts show_data_age_first show_data_color_first NewMessage_def)
qed

text \<open>
  C6, amended: the command \<^verbatim>\<open>show_data\<close>, in every state, leaves the
  session as it is and sends one message: the line
  \<^verbatim>\<open>This is what you already told me:\<close>, a newline, and the facts as lines
  \<^verbatim>\<open><category> - <value>\<close> joined by newlines, in the order in which
  \<^verbatim>\<open>range\<close> yields them in this run; that is one line for each fact and no
  other.
\<close>

theorem C6_show_data:
  assumes "IsCommand msg" and "Command msg = ''show_data''"
    and "enumerates (mapRange rt (UserData s)) (UserData s)"
  shows "ProcessUpdate rt (Some msg) s =
           (s, [\<lparr>ChatID = Chat_ID msg,
                 MsgText = ''This is what you already told me:'' @ [CHR 0x0A] @
                   Join (map (\<lambda>(k, v). k @ '' - '' @ v) (mapRange rt (UserData s))) [CHR 0x0A],
                 Markup = NoMarkup\<rparr>]) \<and>
         distinct (mapRange rt (UserData s)) \<and>
         set (mapRange rt (UserData s)) = {(k, v). UserData s k = Some v} \<and>
         length (mapRange rt (UserData s)) = card (dom (UserData s))"
proof -
  have "factLine = (\<lambda>(k, v). k @ '' - '' @ v)"
    by (auto simp: factLine_def fun_eq_iff)
  with assms(1,2) have "ProcessUpdate rt (Some msg) s =
           (s, [\<lparr>ChatID = Chat_ID msg,
                 MsgText = ''This is what you already told me:'' @ [CHR 0x0A] @
                   Join (map (\<lambda>(k, v). k @ '' - '' @ v) (mapRange rt (UserData s))) [CHR 0x0A],
                 Markup = NoMarkup\<rparr>])"
    by (simp add: ProcessUpdate_def handleShowData_def factsToString_def NewMessage_def)
  with assms(3) show ?thesis
    by (simp add: enumerates_set enumerates_distinct enumerates_length)
qed

theorem C6_show_data_witness:
  "IsCommand (commandMessage ''show_data'') \<and> Command (commandMessage ''show_data'') = ''show_data'' \<and>
   enumerates (mapRange (exampleRuntime [(''age'', ''30''), (''color'', ''blue'')])
                 (UserData twoFactsSession)) (UserData twoFactsSession) \<and>
   ProcessUpdate (exampleRuntime [(''age'', ''30''), (''color'', ''blue'')])
       (Some (commandMessage ''show_data'')) twoFactsSession
     = (twoFactsSession,
        [\<lparr>ChatID = 1,
          MsgText = ''This is what you already told me:'' @ [CHR 0x0A] @
                    ''age - 30'' @ [CHR 0x0A] @ ''color - blue'',
          Markup = NoMarkup\<rparr>]) \<and>
   card (dom (UserData twoFactsSession)) = 2"
proof -
  have h: "IsCommand (commandMessage ''show_data'')"
    "Command (commandMessage ''show_data'') = ''show_data''"
    "enumerates (mapRange (exampleRuntime [(''age'', ''30''), (''color'', ''blue'')])
                 (UserData twoFactsSession)) (UserData twoFactsSession)"
    by (simp_all add: commandMessage_def mapRange_exampleRuntime twoFactsSession_def
        enumerates_twoFacts)
  have c: "Chat_ID (commandMessage ''show_data'') = 1"
    by (simp add: commandMessage_def)
  from C6_show_data [OF h] h c show ?thesis
    by (simp add: mapRange_exampleRuntime)
qed

section \<open>The session store\<close>

text \<open>
  C7. For every store and user id: when a session is stored under the id,
  \<^verbatim>\<open>GetOrCreateSession\<close> returns it and the store is unchanged; when none
  is, the store gains exactly one entry, under that id, every other entry is
  as before, and the session returned is the one inserted, in state Choosing
  and with no facts.
\<close>

theorem C7_GetOrCreateSession:
  "(Sessions s userID = Some x \<longrightarrow> GetOrCreateSession s userID = (s, x)) \<and>
   (Sessions s userID = None \<longrightarrow>
      (\<exists>s' x'. GetOrCreateSession s userID = (s', x') \<and>
         Sessions s' userID = Some x' \<and>
         dom (Sessions s') = insert userID (dom (Sessions s)) \<and>
         (\<forall>k. k \<noteq> userID \<longrightarrow> Sessions s' k = Sessions s k) \<and>
         FilePath s' = FilePath s \<and>
         State x' = StateChoosing \<and> UserData x' = Map.empty))"
  by (simp add: GetOrCreateSession_def newUserSession_def)

theorem C7_GetOrCreateSession_witness:
  "Sessions testStorage 12345 = Some (typingSession StateTypingReply [] [''age'' \<mapsto> ''30'']) \<and>
   GetOrCreateSession testStorage 12345
     = (testStorage, typingSession StateTypingReply [] [''age'' \<mapsto> ''30'']) \<and>
   Sessions testStorage 7 = None \<and>
   (\<exists>s' x'. GetOrCreateSession testStorage 7 = (s', x') \<and>
      Sessions s' 7 = Some x' \<and>
      dom (Sessions s') = {7, 12345} \<and>
      State x' = StateChoosing \<and> UserData x' = Map.empty)"
proof -
  have h1: "Sessions testStorage 12345 = Some (typingSession StateTypingReply [] [''age'' \<mapsto> ''30''])"
    and h2: "Sessions testStorage 7 = None"
    and d: "dom (Sessions testStorage) = {12345}"
    by (simp_all add: testStorage_def)
  from C7_GetOrCreateSession [of testStorage 12345] C7_GetOrCreateSession [of testStorage 7]
    h1 h2 d
  show ?thesis by auto
qed

section \<open>Determinism\<close>

text \<open>
  C8, as claimed: for a fixed session and a fixed inbound text, any two runs
  give the same new state, the same facts and the same reply text. Two runs
  of the show command on the session with the facts age 30 and color blue,
  one in which \<^verbatim>\<open>range\<close> yields age first and one in which it yields color
  first, send different texts.
\<close>

theorem C8_reply_order_counterexample:
  "unicodeToLower (exampleRuntime [(''age'', ''30''), (''color'', ''blue'')]) =
     unicodeToLower (exampleRuntime [(''color'', ''blue''), (''age'', ''30'')]) \<and>
   runeCount (exampleRuntime [(''age'', ''30''), (''color'', ''blue'')]) =
     runeCount (exampleRuntime [(''color'', ''blue''), (''age'', ''30'')]) \<and>
   enumerates (mapRange (exampleRuntime [(''age'', ''30''), (''color'', ''blue'')]) twoFacts)
     twoFacts \<and>
   enumerates (mapRange (exampleRuntime [(''color'', ''blue''), (''age'', ''30'')]) twoFacts)
     twoFacts \<and>
   UserData twoFactsSession = twoFacts \<and>
   snd (ProcessUpdate (exampleRuntime [(''age'', ''30''), (''color'', ''blue'')])
          (Some (commandMessage ''show_data'')) twoFactsSession) \<noteq>
   snd (ProcessUpdate (exampleRuntime [(''color'', ''blue''), (''age'', ''30'')])
          (Some (commandMessage ''show_data'')) twoFactsSession)"
proof -
  have "unicodeToLower (exampleRuntime [(''age'', ''30''), (''color'', ''blue'')]) =
          unicodeToLower (exampleRuntime [(''color'', ''blue''), (''age'', ''30'')])"
    and "runeCount (exampleRuntime [(''age'', ''30''), (''color'', ''blue'')]) =
          runeCount (exampleRuntime [(''color'', ''blue''), (''age'', ''30'')])"
    and "UserData twoFactsSession = twoFacts"
    by (simp_all add: exampleRuntime_def twoFactsSession_def)
  then show ?thesis
    by (simp add: mapRange_exampleRuntime enumerates_twoFacts show_data_age_first
        show_data_color_first NewMessage_def)
qed

text \<open>
  C8, amended: for a fixed session and a fixed inbound update, any two runs
  (with the same library functions) leave the same session: the same state,
  the same facts, the same \<^verbatim>\<open>CurrentKey\<close>. They send the same messages
  whenever \<^verbatim>\<open>range\<close> yields the facts of that session in the same order in
  both, which is certain when there is at most one fact; with two facts or
  more, the order of the facts in the reply is that of the run.
\<close>

theorem C8_deterministic_up_to_range_order:
  assumes "unicodeToLower rt1 = unicodeToLower rt2" and "runeCount rt1 = runeCount rt2"
  shows "fst (ProcessUpdate rt1 u s) = fst (ProcessUpdate rt2 u s) \<and>
         (mapRange rt1 (UserData (fst (ProcessUpdate rt1 u s))) =
          mapRange rt2 (UserData (fst (ProcessUpdate rt1 u s))) \<longrightarrow>
            snd (ProcessUpdate rt1 u s) = snd (ProcessUpdate rt2 u s)) \<and>
         (enumerates (mapRange rt1 (UserData (fst (ProcessUpdate rt1 u s))))
                     (UserData (fst (ProcessUpdate rt1 u s))) \<and>
          enumerates (mapRange rt2 (UserData (fst (ProcessUpdate rt1 u s))))
                     (UserData (fst (ProcessUpdate rt1 u s))) \<and>
          card (dom (UserData (fst (ProcessUpdate rt1 u s)))) \<le> 1 \<longrightarrow>
            snd (ProcessUpdate rt1 u s) = snd (ProcessUpdate rt2 u s))"
  using ProcessUpdate_fst_cong [OF assms] ProcessUpdate_snd_cong [OF assms] enumerates_unique
  by blast

theorem C8_deterministic_up_to_range_order_witness:
  "unicodeToLower (exampleRuntime [(''age'', ''17'')]) =
     unicodeToLower (otherRuntime [(''age'', ''17'')]) \<and>
   runeCount (exampleRuntime [(''age'', ''17'')]) = runeCount (otherRuntime [(''age'', ''17'')]) \<and>
   mapRange (exampleRuntime [(''age'', ''17'')]) \<noteq> mapRange (otherRuntime [(''age'', ''17'')]) \<and>
   enumerates (mapRange (exampleRuntime [(''age'', ''17'')]) [''age'' \<mapsto> ''17''])
     [''age'' \<mapsto> ''17''] \<and>
   enumerates (mapRange (otherRuntime [(''age'', ''17'')]) [''age'' \<mapsto> ''17''])
     [''age'' \<mapsto> ''17''] \<and>
   card (dom [''age'' \<mapsto> ''17'']) \<le> 1 \<and>
   ProcessUpdate (exampleRuntime [(''age'', ''17'')]) (Some (textMessage ''17''))
       (typingSession StateTypingReply ''age'' Map.empty)
     = ProcessUpdate (otherRuntime [(''age'', ''17'')]) (Some (textMessage ''17''))
         (typingSession StateTypingReply ''age'' Map.empty)"
proof -
  let ?rt1 = "exampleRuntime [(''age'', ''17'')]" and ?rt2 = "otherRuntime [(''age'', ''17'')]"
  let ?u = "Some (textMessage ''17'')" and ?s = "typingSession StateTypingReply ''age'' Map.empty"
  let ?m = "[''age'' \<mapsto> ''17'']"
  have lib: "unicodeToLower ?rt1 = unicodeToLower ?rt2" "runeCount ?rt1 = runeCount ?rt2"
    by (simp_all add: exampleRuntime_def otherRuntime_def)
  have m: "UserData (fst (ProcessUpdate ?rt1 ?u ?s)) = ?m"
    by (simp add: ProcessUpdate_def handleReceivedInformation_def isDone_def lower_eval
        state_defs example_defs Let_def)
  have en: "enumerates (mapRange ?rt1 ?m) ?m" "enumerates (mapRange ?rt2 ?m) ?m"
    by (simp_all add: exampleRuntime_def otherRuntime_def enumerates_def)
  have c: "card (dom ?m) \<le> 1"
    by simp
  have "mapRange ?rt1 Map.empty \<noteq> mapRange ?rt2 Map.empty"
    by (simp add: exampleRuntime_def otherRuntime_def)
  then have ne: "mapRange ?rt1 \<noteq> mapRange ?rt2"
    by metis
  from C8_deterministic_up_to_range_order [OF lib, of ?u ?s] en c
  have "ProcessUpdate ?rt1 ?u ?s = ProcessUpdate ?rt2 ?u ?s"
    unfolding m by (simp add: prod_eq_iff)
  with lib en c ne show ?thesis by simp
qed

section \<open>The field \<^verbatim>\<open>LastUpdated\<close>\<close>

text \<open>
  C9, as claimed: every event that changes the state or the facts of a session
  sets \<^verbatim>\<open>LastUpdated\<close> to the time of the change. The text \<^verbatim>\<open>Age\<close>
  moves a new session from Choosing to TypingReply, and the text \<^verbatim>\<open>17\<close>
  then records a fact; after both, \<^verbatim>\<open>LastUpdated\<close> is the 0 of the new
  session.
\<close>

theorem C9_LastUpdated_counterexample:
  "State newUserSession = StateChoosing \<and> LastUpdated newUserSession = 0 \<and>
   fst (ProcessUpdate (exampleRuntime []) (Some (textMessage ''Age'')) newUserSession)
     = typingSession StateTypingReply ''age'' Map.empty \<and>
   StateTypingReply \<noteq> StateChoosing \<and>
   LastUpdated (typingSession StateTypingReply ''age'' Map.empty) = 0 \<and>
   fst (ProcessUpdate (exampleRuntime [(''age'', ''17'')]) (Some (textMessage ''17''))
          (typingSession StateTypingReply ''age'' Map.empty))
     = typingSession StateChoosing [] [''age'' \<mapsto> ''17''] \<and>
   [''age'' \<mapsto> ''17''] \<noteq> Map.empty \<and>
   LastUpdated (typingSession StateChoosing [] [''age'' \<mapsto> ''17'']) = 0"
  by (simp add: ProcessUpdate_def handleRegularChoice_def handleReceivedInformation_def
      isRegular_def isDone_def lower_eval state_defs example_defs newUserSession_def Let_def)

text \<open>
  C9, amended: no event writes \<^verbatim>\<open>LastUpdated\<close>: whatever an update does to
  the state and the facts of a session, the field keeps the value it had (0
  in a session made by \<^verbatim>\<open>GetOrCreateSession\<close>).
\<close>

theorem C9_LastUpdated_never_written:
  "LastUpdated (fst (ProcessUpdate rt u s)) = LastUpdated s \<and> LastUpdated newUserSession = 0"
  by (simp add: ProcessUpdate_def handler_defs newUserSession_def Let_def split: option.splits)

section \<open>Keys of the facts\<close>

text \<open>
  C10. In every session that a new session can become through any sequence
  of updates, every key of the facts is case-normalized (lower-cased): it
  has no capital letter \<^verbatim>\<open>A\<close> to \<^verbatim>\<open>Z\<close>. Every update preserves this, of
  the keys of the facts together with \<^verbatim>\<open>CurrentKey\<close>, from any session: the
  only insertion into the facts, in \<^verbatim>\<open>handleReceivedInformation\<close>, is under
  \<^verbatim>\<open>CurrentKey\<close>, which is empty or was lower-cased by \<^verbatim>\<open>strings.ToLower\<close>
  when it was set. Of the library this takes that the Unicode path of
  \<^verbatim>\<open>strings.ToLower\<close> returns no capital letter \<^verbatim>\<open>A\<close> to \<^verbatim>\<open>Z\<close>; the
  ASCII path is in the model.
\<close>

theorem C10_keys_case_normalized:
  assumes "\<forall>t. caseNormalized (unicodeToLower rt t)"
    and "reachable rt s" and "UserData s k = Some v"
  shows "caseNormalized k \<and>
         (keysNormalized s' \<longrightarrow> keysNormalized (fst (ProcessUpdate rt u s')))"
proof
  from reachable_keysNormalized [OF assms(1,2)] assms(3) show "caseNormalized k"
    by (auto simp: keysNormalized_def)
  show "keysNormalized s' \<longrightarrow> keysNormalized (fst (ProcessUpdate rt u s'))"
    by (simp add: keysNormalized_step [OF assms(1)])
qed

theorem C10_keys_case_normalized_witness:
  "(\<forall>t. caseNormalized (unicodeToLower (loweringRuntime [(''favourite food'', ''pizza'')]) t)) \<and>
   reachable (loweringRuntime [(''favourite food'', ''pizza'')])
     (typingSession StateChoosing [] [''favourite food'' \<mapsto> ''pizza'']) \<and>
   UserData (typingSession StateChoosing [] [''favourite food'' \<mapsto> ''pizza''])
     ''favourite food'' = Some ''pizza'' \<and>
   caseNormalized ''favourite food'' \<and>
   keysNormalized (typingSession StateTypingChoice [] Map.empty) \<and>
   keysNormalized (typingSession StateTypingReply ''favourite food'' Map.empty)"
proof -
  let ?rt = "loweringRuntime [(''favourite food'', ''pizza'')]"
  have lib: "\<forall>t. caseNormalized (unicodeToLower ?rt t)"
    by (simp add: loweringRuntime_def caseNormalized_map_lowerASCII)
  have s1: "fst (ProcessUpdate ?rt (Some (textMessage ''Something else...'')) newUserSession)
              = typingSession StateTypingChoice [] Map.empty"
    by (simp add: ProcessUpdate_def handleCustomChoice_def isRegular_def isCustom_def
        state_defs loweringRuntime_def textMessage_def typingSession_def newUserSession_def
        Let_def)
  have s2: "fst (ProcessUpdate ?rt (Some (textMessage ''Favourite food''))
                   (typingSession StateTypingChoice [] Map.empty))
              = typingSession StateTypingReply ''favourite food'' Map.empty"
    by (simp add: ProcessUpdate_def isDone_def lower_eval state_defs textMessage_def
        typingSession_def Let_def)
  have s3: "fst (ProcessUpdate ?rt (Some (textMessage ''Pizza''))
                   (typingSession StateTypingReply ''favourite food'' Map.empty))
              = typingSession StateChoosing [] [''favourite food'' \<mapsto> ''pizza'']"
    by (simp add: ProcessUpdate_def handleReceivedInformation_def isDone_def lower_eval
        state_defs textMessage_def typingSession_def Let_def)
  have "reachable ?rt (fst (ProcessUpdate ?rt (Some (textMessage ''Something else...''))
                              newUserSession))"
    by (rule reachable_step [OF reachable_new]) simp_all
  then have "reachable ?rt (fst (ProcessUpdate ?rt (Some (textMessage ''Favourite food''))
                   (typingSession StateTypingChoice [] Map.empty)))"
    unfolding s1 by (rule reachable_step) simp_all
  then have "reachable ?rt (fst (ProcessUpdate ?rt (Some (textMessage ''Pizza''))
                   (typingSession StateTypingReply ''favourite food'' Map.empty)))"
    unfolding s2 by (rule reachable_step) simp_all
  then have r: "reachable ?rt (typingSession StateChoosing [] [''favourite food'' \<mapsto> ''pizza''])"
    unfolding s3 .
  have l: "UserData (typingSession StateChoosing [] [''favourite food'' \<mapsto> ''pizza''])
             ''favourite food'' = Some ''pizza''"
    by (simp add: typingSession_def)
  have k0: "keysNormalized (typingSession StateTypingChoice [] Map.empty)"
    by (simp add: keysNormalized_def caseNormalized_def typingSession_def)
  from C10_keys_case_normalized
         [OF lib r l, of "typingSession StateTypingChoice [] Map.empty"
            "Some (textMessage ''Favourite food'')"]
       lib r l k0
  show ?thesis unfolding s2 by simp
qed

end
